theory Spec2Isabelle
  imports Main "HOL-Library.Word"
begin

section \<open>Billettlyst: the Category page, the event detail page and EventCard\<close>

text \<open>
  The three source files are React components: \<^verbatim>\<open>Category\<close> (category page),
  \<^verbatim>\<open>EventDetails\<close> (event detail page) and \<^verbatim>\<open>EventCard\<close>. The embedding follows the
  component bodies: the values computed before the markup, the handlers that change the
  component state, and the parts of the markup the properties speak about.

  Display strings are \<^typ>\<open>string\<close>. A field that may be absent in the payload of the
  events API (read in the source with \<^verbatim>\<open>?.\<close> or guarded by a truthiness test) is an
  \<^typ>\<open>'a option\<close>, \<^term>\<open>None\<close> standing for \<^verbatim>\<open>undefined\<close>. The modules
  \<^verbatim>\<open>../types\<close>, \<^verbatim>\<open>../services/api\<close> and \<^verbatim>\<open>../utils/formatDate\<close> are not part of
  the sources: the entity types are read off the field accesses of the components, and the
  API functions and the date formatters are parameters of the definitions that call them.
\<close>

subsection \<open>JavaScript values\<close>

text \<open>Truthiness of an optional string: \<^verbatim>\<open>undefined\<close> and the empty string are falsy.\<close>

fun truthy :: "string option \<Rightarrow> bool" where
  "truthy None = False"
| "truthy (Some s) = (s \<noteq> [])"

text \<open>\<^verbatim>\<open>a || b\<close> on optional objects: an object is always truthy.\<close>

fun or_else :: "'a option \<Rightarrow> 'a option \<Rightarrow> 'a option" where
  "or_else (Some a) b = Some a"
| "or_else None b = b"

text \<open>\<^verbatim>\<open>a || d\<close> where \<^verbatim>\<open>d\<close> is an object literal.\<close>

fun or_default :: "'a option \<Rightarrow> 'a \<Rightarrow> 'a" where
  "or_default (Some a) d = a"
| "or_default None d = d"

text \<open>\<^verbatim>\<open>xs?.find(p)\<close> and \<^verbatim>\<open>xs?.[0]\<close> on an optional array.\<close>

fun find_opt :: "('a \<Rightarrow> bool) \<Rightarrow> 'a list option \<Rightarrow> 'a option" where
  "find_opt p None = None"
| "find_opt p (Some xs) = List.find p xs"

fun first_opt :: "'a list option \<Rightarrow> 'a option" where
  "first_opt None = None"
| "first_opt (Some []) = None"
| "first_opt (Some (x # xs)) = Some x"

text \<open>A JSX child \<^verbatim>\<open>{v}\<close>: \<^verbatim>\<open>undefined\<close> renders as nothing.\<close>

fun jsx_text :: "string option \<Rightarrow> string" where
  "jsx_text None = []"
| "jsx_text (Some s) = s"

text \<open>\<^verbatim>\<open>.filter(Boolean)\<close> on an array of optional strings, and on an array of optional
  elements (\<^verbatim>\<open>null\<close> is dropped).\<close>

fun filter_Boolean :: "string option list \<Rightarrow> string list" where
  "filter_Boolean [] = []"
| "filter_Boolean (None # xs) = filter_Boolean xs"
| "filter_Boolean (Some s # xs) = (if s \<noteq> [] then s # filter_Boolean xs else filter_Boolean xs)"

fun filter_Boolean_elements :: "'a option list \<Rightarrow> 'a list" where
  "filter_Boolean_elements [] = []"
| "filter_Boolean_elements (None # xs) = filter_Boolean_elements xs"
| "filter_Boolean_elements (Some x # xs) = x # filter_Boolean_elements xs"

text \<open>\<^verbatim>\<open>self.indexOf(value)\<close>: the index of the first element equal to the value, or -1.\<close>

fun indexOf_from :: "int \<Rightarrow> 'a list \<Rightarrow> 'a \<Rightarrow> int" where
  "indexOf_from i [] v = -1"
| "indexOf_from i (x # xs) v = (if x = v then i else indexOf_from (i + 1) xs v)"

definition indexOf :: "'a list \<Rightarrow> 'a \<Rightarrow> int" where
  "indexOf self v = indexOf_from 0 self v"

text \<open>\<^verbatim>\<open>self.filter((value, index, self) => p(value, index, self))\<close>.\<close>

definition filter_indexed :: "('a \<Rightarrow> int \<Rightarrow> 'a list \<Rightarrow> bool) \<Rightarrow> 'a list \<Rightarrow> 'a list" where
  "filter_indexed p self =
     map fst (filter (\<lambda>(v, i). p v i self) (zip self (map int [0..<length self])))"

subsection \<open>Entities of the events API\<close>

text \<open>
  The field names carry the entity as a prefix, since several entities have an \<^verbatim>\<open>id\<close>, a
  \<^verbatim>\<open>name\<close> and \<^verbatim>\<open>images\<close>. The fallback object \<^verbatim>\<open>{ url: ... }\<close> of the image selection
  has neither ratio nor width, so both are optional.
\<close>

record image =
  img_url :: string
  img_ratio :: "string option"
  img_width :: "int option"

text \<open>An object with a \<^verbatim>\<open>name\<close>: a city, a country, a segment, a genre, a sub-genre.\<close>

record named =
  nm :: "string option"

record classification =
  segment :: "named option"
  genre :: "named option"
  subGenre :: "named option"

record venue =
  venue_id :: string
  venue_name :: string
  venue_city :: "named option"
  venue_country :: "named option"
  venue_images :: "image list option"

record attraction =
  attraction_id :: string
  attraction_name :: string
  attraction_images :: "image list option"
  attraction_classifications :: "classification list option"

record start =
  localDate :: "string option"
  localTime :: "string option"

record dates =
  dates_start :: "start option"

record embedded =
  embedded_venues :: "venue list option"
  embedded_attractions :: "attraction list option"

record event =
  event_id :: string
  event_name :: string
  event_images :: "image list option"
  event_dates :: "dates option"
  event_embedded :: "embedded option"
  event_classifications :: "classification list option"

text \<open>\<^verbatim>\<open>x?.name\<close>, \<^verbatim>\<open>img.ratio === r\<close> and \<^verbatim>\<open>img.width > n\<close> (false at \<^verbatim>\<open>undefined\<close>).\<close>

definition name_of :: "named option \<Rightarrow> string option" where
  "name_of x = Option.bind x nm"

definition ratio_is :: "string \<Rightarrow> image \<Rightarrow> bool" where
  "ratio_is r img = (img_ratio img = Some r)"

definition wider_than :: "int \<Rightarrow> image \<Rightarrow> bool" where
  "wider_than n img = (case img_width img of None \<Rightarrow> False | Some w \<Rightarrow> w > n)"

definition placeholder_url :: string where
  "placeholder_url = ''https://via.placeholder.com/400x225?text=Ingen+Bilde''"

definition placeholder_image :: image where
  "placeholder_image = \<lparr>img_url = placeholder_url, img_ratio = None, img_width = None\<rparr>"

subsection \<open>The wishlist item\<close>

record wishlist_item =
  item_id :: string
  item_type :: string
  item_name :: string
  item_image :: string

subsection \<open>EventCard\<close>

record event_card_props =
  props_event :: event
  isClickable :: "bool option"
  showWishlist :: "bool option"

text \<open>\<^verbatim>\<open>image\<close>, \<^verbatim>\<open>venue\<close>, \<^verbatim>\<open>location\<close> and \<^verbatim>\<open>formattedDate\<close> of the component body.\<close>

definition eventCard_image :: "event \<Rightarrow> image" where
  "eventCard_image e =
     or_default
       (or_else (find_opt (\<lambda>img. ratio_is ''16_9'' img \<and> wider_than 500 img) (event_images e))
          (first_opt (event_images e)))
       placeholder_image"

definition first_venue :: "event \<Rightarrow> venue option" where
  "first_venue e = first_opt (Option.bind (event_embedded e) embedded_venues)"

definition eventCard_location :: "event \<Rightarrow> string" where
  "eventCard_location e =
     (let city = name_of (Option.bind (first_venue e) venue_city);
          country = name_of (Option.bind (first_venue e) venue_country)
      in if truthy city \<and> truthy country
         then jsx_text city @ '', '' @ jsx_text country
         else ''Ukjent sted'')"

definition start_localDate :: "event \<Rightarrow> string option" where
  "start_localDate e = Option.bind (Option.bind (event_dates e) dates_start) localDate"

definition start_localTime :: "event \<Rightarrow> string option" where
  "start_localTime e = Option.bind (Option.bind (event_dates e) dates_start) localTime"

definition formattedDate_of :: "(string \<Rightarrow> string) \<Rightarrow> event \<Rightarrow> string" where
  "formattedDate_of formatDate e =
     (case start_localDate e of
        Some d \<Rightarrow> if d \<noteq> [] then formatDate d else ''Dato ikke tilgjengelig''
      | None \<Rightarrow> ''Dato ikke tilgjengelig'')"

text \<open>
  What the card shows. The \<^verbatim>\<open>isLoaded\<close> state of the component only switches the
  opacity class of the overlay and is left out. The props default to
  \<^verbatim>\<open>isClickable = true\<close> and \<^verbatim>\<open>showWishlist = false\<close>.
\<close>

record event_card =
  card_link_to :: "string option"
  card_img_src :: string
  card_img_alt :: string
  card_wishlist :: "wishlist_item option"
  card_heading :: string
  card_date :: string
  card_location :: string

definition EventCard :: "(string \<Rightarrow> string) \<Rightarrow> event_card_props \<Rightarrow> event_card" where
  "EventCard formatDate props =
     (let e = props_event props;
          clickable = (case isClickable props of None \<Rightarrow> True | Some b \<Rightarrow> b);
          wishlist = (case showWishlist props of None \<Rightarrow> False | Some b \<Rightarrow> b);
          image = eventCard_image e
      in \<lparr>card_link_to = (if clickable then Some (''/event/'' @ event_id e) else None),
          card_img_src = img_url image,
          card_img_alt = event_name e,
          card_wishlist =
            (if wishlist
             then Some \<lparr>item_id = event_id e, item_type = ''event'', item_name = event_name e,
                        item_image = img_url image\<rparr>
             else None),
          card_heading = event_name e,
          card_date = formattedDate_of formatDate e,
          card_location = eventCard_location e\<rparr>)"

subsection \<open>Category: the attraction and venue cards\<close>

record entity_card =
  entity_key :: string
  entity_wishlist :: wishlist_item
  entity_img_src :: string
  entity_img_alt :: string
  entity_heading :: string
  entity_text :: string

definition attraction_image :: "attraction \<Rightarrow> image" where
  "attraction_image a =
     or_default
       (or_else (find_opt (ratio_is ''16_9'') (attraction_images a)) (first_opt (attraction_images a)))
       placeholder_image"

definition attraction_genre :: "attraction \<Rightarrow> string" where
  "attraction_genre a =
     (let g = name_of (Option.bind (first_opt (attraction_classifications a)) genre)
      in if truthy g then jsx_text g else ''Ukjent sjanger'')"

definition renderAttraction :: "attraction \<Rightarrow> entity_card" where
  "renderAttraction a =
     (let image = attraction_image a; genre = attraction_genre a
      in \<lparr>entity_key = attraction_id a,
          entity_wishlist =
            \<lparr>item_id = attraction_id a, item_type = ''attraction'', item_name = attraction_name a,
             item_image = img_url image\<rparr>,
          entity_img_src = img_url image,
          entity_img_alt = attraction_name a,
          entity_heading = attraction_name a,
          entity_text = genre\<rparr>)"

definition venue_image :: "venue \<Rightarrow> image" where
  "venue_image v =
     or_default
       (or_else (find_opt (ratio_is ''16_9'') (venue_images v)) (first_opt (venue_images v)))
       placeholder_image"

text \<open>
  \<^verbatim>\<open>renderVenue\<close> returns \<^verbatim>\<open>null\<close> (here \<^term>\<open>None\<close>) for a venue without city or
  country. Its test \<^verbatim>\<open>!venue\<close> is for a \<^verbatim>\<open>null\<close> element of the array, which the type
  \<^verbatim>\<open>Venue[]\<close> (here \<^typ>\<open>venue list\<close>) excludes.
\<close>

definition renderVenue :: "venue \<Rightarrow> entity_card option" where
  "renderVenue v =
     (case (venue_city v, venue_country v) of
        (Some city, Some country) \<Rightarrow>
          (let image = venue_image v
           in Some \<lparr>entity_key = venue_id v,
                    entity_wishlist =
                      \<lparr>item_id = venue_id v, item_type = ''venue'', item_name = venue_name v,
                       item_image = img_url image\<rparr>,
                    entity_img_src = img_url image,
                    entity_img_alt = venue_name v,
                    entity_heading = venue_name v,
                    entity_text = jsx_text (nm city) @ '', '' @ jsx_text (nm country)\<rparr>)
      | _ \<Rightarrow> None)"

subsection \<open>The browser and the API client\<close>

text \<open>
  The effects of the pages outside their own state: the document (its title; whether its
  \<^verbatim>\<open>title\<close> element exists and has the attribute \<^verbatim>\<open>data-default\<close>), the lines written
  with \<^verbatim>\<open>console.error\<close>, and the calls made to the API client, in order.
\<close>

datatype js_error = Error string

datatype 'a settled = Fulfilled 'a | Rejected js_error

record document =
  title :: string
  title_data_default :: bool

record filters =
  filter_date :: string
  filter_country :: string
  filter_city :: string

text \<open>A JavaScript string as its UTF-16 code units: the text of the search field, which
  the page trims.\<close>

type_synonym js_string = "16 word list"

datatype api_call =
    FetchCategoryContent string filters
  | FetchSuggest js_string
  | FetchEventById string

record browser =
  document :: document
  console :: "(string \<times> js_error) list"
  api_calls :: "api_call list"

definition set_title :: "string \<Rightarrow> browser \<Rightarrow> browser" where
  "set_title t w = w\<lparr>document := (document w)\<lparr>title := t\<rparr>\<rparr>"

definition console_error :: "string \<Rightarrow> js_error \<Rightarrow> browser \<Rightarrow> browser" where
  "console_error msg err w = w\<lparr>console := console w @ [(msg, err)]\<rparr>"

definition call_api :: "api_call \<Rightarrow> browser \<Rightarrow> browser" where
  "call_api c w = w\<lparr>api_calls := api_calls w @ [c]\<rparr>"

text \<open>The cleanup function both pages return from their effect.\<close>

definition reset_title :: "browser \<Rightarrow> browser" where
  "reset_title w =
     (if title_data_default (document w)
      then set_title ''Billettlyst | Din billett til opplevelser'' w
      else w)"

text \<open>What \<^verbatim>\<open>fetchCategoryContent\<close> and \<^verbatim>\<open>fetchSuggest\<close> resolve to.\<close>

record content =
  content_attractions :: "attraction list"
  content_events :: "event list"
  content_venues :: "venue list"

subsection \<open>Category: state and handlers\<close>

record category_state =
  attractions :: "attraction list"
  events :: "event list"
  venues :: "venue list"
  searchQuery :: js_string
  filters :: filters
  isFiltersOpen :: bool
  isLoading :: bool

text \<open>The state of a freshly mounted page (the arguments of \<^verbatim>\<open>useState\<close>).\<close>

definition category_initial :: category_state where
  "category_initial =
     \<lparr>attractions = [], events = [], venues = [], searchQuery = [],
      filters = \<lparr>filter_date = [], filter_country = [], filter_city = []\<rparr>,
      isFiltersOpen = False, isLoading = True\<rparr>"

definition categoryTranslations :: "(string \<times> string) list" where
  "categoryTranslations =
     [(''music'', ''Musikk''), (''sports'', ''Sport''), (''arts'', ''Teater/Show''),
      (''family'', ''Familie'')]"

text \<open>
  \<^verbatim>\<open>categoryTranslations[type || 'music'] || 'Kategori'\<close>, for the keys of the table
  itself. (A route parameter that names a property every JavaScript object inherits, such
  as \<^verbatim>\<open>constructor\<close>, reads that property instead; the definitions below therefore take
  the category name as an argument and do not depend on this one.)
\<close>

definition categoryName :: "string option \<Rightarrow> string" where
  "categoryName route_type =
     (let key = (if truthy route_type then jsx_text route_type else ''music'');
          found = map_of categoryTranslations key
      in if truthy found then jsx_text found else ''Kategori'')"

text \<open>
  \<^verbatim>\<open>loadCategoryContent\<close> runs up to its \<^verbatim>\<open>await\<close>, and goes on when the promise
  settles. \<^verbatim>\<open>loadCategoryContent_settle\<close> is the part after the \<^verbatim>\<open>await\<close>: the rest of
  the \<^verbatim>\<open>try\<close> block or the \<^verbatim>\<open>catch\<close> block, then the \<^verbatim>\<open>finally\<close> block.
  \<^verbatim>\<open>loadCategoryContent\<close> is the whole call with nothing else running in between. Its
  argument \<open>name\<close> is the variable \<^verbatim>\<open>categoryName\<close> of the render that started the
  effect, which the function reads from its closure. The route parameters
  \<^verbatim>\<open>type\<close> and \<^verbatim>\<open>id\<close> of the pages are called \<open>route_type\<close> and \<open>route_id\<close>.
\<close>

definition loadCategoryContent_settle ::
  "string \<Rightarrow> content settled \<Rightarrow> category_state \<times> browser \<Rightarrow> category_state \<times> browser" where
  "loadCategoryContent_settle name outcome = (\<lambda>(st, w).
     case outcome of
       Fulfilled c \<Rightarrow>
         (st\<lparr>attractions := content_attractions c, events := content_events c,
             venues := content_venues c, isLoading := False\<rparr>,
          set_title (name @ '' | Billettlyst'') w)
     | Rejected err \<Rightarrow>
         (st\<lparr>isLoading := False\<rparr>, console_error ''Error loading category content:'' err w))"

definition loadCategoryContent ::
  "(string \<Rightarrow> filters \<Rightarrow> content settled) \<Rightarrow> string option \<Rightarrow> string \<Rightarrow>
     category_state \<times> browser \<Rightarrow> category_state \<times> browser" where
  "loadCategoryContent fetchCategoryContent route_type name = (\<lambda>(st, w).
     if \<not> truthy route_type then (st, w)
     else loadCategoryContent_settle name
            (fetchCategoryContent (jsx_text route_type) (filters st))
            (st\<lparr>isLoading := True\<rparr>,
             call_api (FetchCategoryContent (jsx_text route_type) (filters st)) w))"

text \<open>
  \<^verbatim>\<open>String.prototype.trim\<close> removes white space and line terminators from both ends:
  TAB, LF, VT, FF, CR, SP, NBSP, the space separators of Unicode, LS, PS and the byte
  order mark.
\<close>

definition is_white_space :: "16 word \<Rightarrow> bool" where
  "is_white_space c =
     (c \<in> set [0x0009, 0x000A, 0x000B, 0x000C, 0x000D, 0x0020, 0x00A0, 0x1680, 0x2028,
              0x2029, 0x202F, 0x205F, 0x3000, 0xFEFF]
      \<or> (0x2000 \<le> c \<and> c \<le> 0x200A))"

definition trim :: "js_string \<Rightarrow> js_string" where
  "trim s = rev (dropWhile is_white_space (rev (dropWhile is_white_space s)))"

record form_event =
  defaultPrevented :: bool

definition handleSearch_settle ::
  "content settled \<Rightarrow> category_state \<times> browser \<Rightarrow> category_state \<times> browser" where
  "handleSearch_settle outcome = (\<lambda>(st, w).
     case outcome of
       Fulfilled r \<Rightarrow>
         (st\<lparr>attractions := content_attractions r, events := content_events r,
             venues := content_venues r, isLoading := False\<rparr>, w)
     | Rejected err \<Rightarrow>
         (st\<lparr>isLoading := False\<rparr>, console_error ''Error searching:'' err w))"

definition handleSearch ::
  "(js_string \<Rightarrow> content settled) \<Rightarrow> form_event \<Rightarrow>
     category_state \<times> browser \<Rightarrow> form_event \<times> category_state \<times> browser" where
  "handleSearch fetchSuggest e = (\<lambda>(st, w).
     if trim (searchQuery st) = [] then (e\<lparr>defaultPrevented := True\<rparr>, st, w)
     else (e\<lparr>defaultPrevented := True\<rparr>,
           handleSearch_settle (fetchSuggest (searchQuery st))
             (st\<lparr>isLoading := True\<rparr>, call_api (FetchSuggest (searchQuery st)) w)))"

subsection \<open>Category: the result sections\<close>

text \<open>
  While loading, the page shows eight skeleton cards; afterwards one section per kind of
  entity, each either a grid of cards or a message. The venue grid drops the venues for
  which \<^verbatim>\<open>renderVenue\<close> returns \<^verbatim>\<open>null\<close> (\<^verbatim>\<open>.filter(Boolean)\<close>).
\<close>

datatype 'a result_section = Grid "'a list" | Message string

record category_results =
  events_section :: "event_card result_section"
  attractions_section :: "entity_card result_section"
  venues_section :: "entity_card result_section"

datatype category_body = Skeleton nat | Results category_results

definition Category_body :: "(string \<Rightarrow> string) \<Rightarrow> category_state \<Rightarrow> category_body" where
  "Category_body formatDate st =
     (if isLoading st then Skeleton 8
      else Results
        \<lparr>events_section =
           (if length (events st) > 0
            then Grid (map (\<lambda>e. EventCard formatDate
                                  \<lparr>props_event = e, isClickable = Some False,
                                   showWishlist = Some True\<rparr>) (events st))
            else Message ''Ingen arrangementer funnet i denne kategorien.''),
         attractions_section =
           (if length (attractions st) > 0
            then Grid (map renderAttraction (attractions st))
            else Message ''Ingen attraksjoner funnet i denne kategorien.''),
         venues_section =
           (if length (venues st) > 0
            then Grid (filter_Boolean_elements (map renderVenue (venues st)))
            else Message ''Ingen spillesteder funnet i denne kategorien.'')\<rparr>)"

subsection \<open>EventDetails\<close>

text \<open>The fields of the state are prefixed, \<^verbatim>\<open>isLoading\<close> being a field of the Category
  page too.\<close>

record details_state =
  ed_event :: "event option"
  ed_isLoading :: bool

definition details_initial :: details_state where
  "details_initial = \<lparr>ed_event = None, ed_isLoading = True\<rparr>"

definition loadEvent_settle ::
  "event option settled \<Rightarrow> details_state \<times> browser \<Rightarrow> details_state \<times> browser" where
  "loadEvent_settle outcome = (\<lambda>(st, w).
     case outcome of
       Fulfilled eventData \<Rightarrow>
         (st\<lparr>ed_event := eventData, ed_isLoading := False\<rparr>,
          set_title (case eventData of
                       Some ev \<Rightarrow> event_name ev @ '' | Billettlyst''
                     | None \<Rightarrow> ''Arrangement | Billettlyst'') w)
     | Rejected err \<Rightarrow>
         (st\<lparr>ed_isLoading := False\<rparr>, console_error ''Error loading event details:'' err w))"

definition loadEvent ::
  "(string \<Rightarrow> event option settled) \<Rightarrow> string option \<Rightarrow>
     details_state \<times> browser \<Rightarrow> details_state \<times> browser" where
  "loadEvent fetchEventById route_id = (\<lambda>(st, w).
     if \<not> truthy route_id then (st, w)
     else loadEvent_settle (fetchEventById (jsx_text route_id))
            (st\<lparr>ed_isLoading := True\<rparr>, call_api (FetchEventById (jsx_text route_id)) w))"

text \<open>The values the component computes from a loaded event, before the markup.\<close>

definition heroImage :: "event \<Rightarrow> image option" where
  "heroImage e =
     or_else (find_opt (\<lambda>img. ratio_is ''16_9'' img \<and> wider_than 800 img) (event_images e))
       (or_else (find_opt (wider_than 800) (event_images e)) (first_opt (event_images e)))"

definition classifications :: "event \<Rightarrow> classification list" where
  "classifications e = (case event_classifications e of None \<Rightarrow> [] | Some cs \<Rightarrow> cs)"

definition classification_names :: "event \<Rightarrow> string option list" where
  "classification_names e =
     concat (map (\<lambda>c. [name_of (segment c), name_of (genre c), name_of (subGenre c)])
               (classifications e))"

definition genres :: "event \<Rightarrow> string list" where
  "genres e =
     filter_indexed (\<lambda>value index self. indexOf self value = index)
       (filter_Boolean (classification_names e))"

definition formattedDateTime_of ::
  "(string \<Rightarrow> string) \<Rightarrow> (string \<Rightarrow> string \<Rightarrow> string) \<Rightarrow> event \<Rightarrow> string" where
  "formattedDateTime_of formatDate formatDateTime e =
     (if truthy (start_localDate e) \<and> truthy (start_localTime e)
      then formatDateTime (jsx_text (start_localDate e)) (jsx_text (start_localTime e))
      else formattedDate_of formatDate e)"

text \<open>
  The three things the page can show. The detail view carries the event and the computed
  values its sections are built from; the hero section is present exactly when there is a
  hero image, the genre section when the genre list is not empty.
\<close>

record not_found =
  nf_heading :: string
  nf_paragraph :: string
  nf_link_to :: string
  nf_link_text :: string

record details =
  det_event :: event
  det_heroImage :: "image option"
  det_venue :: "venue option"
  det_attractions :: "attraction list"
  det_genres :: "string list"
  det_formattedDate :: string
  det_formattedDateTime :: string

datatype details_view = Loading_skeleton | Not_found not_found | Details details

definition EventDetails_view ::
  "(string \<Rightarrow> string) \<Rightarrow> (string \<Rightarrow> string \<Rightarrow> string) \<Rightarrow> details_state \<Rightarrow> details_view" where
  "EventDetails_view formatDate formatDateTime st =
     (if ed_isLoading st then Loading_skeleton
      else case ed_event st of
        None \<Rightarrow>
          Not_found
            \<lparr>nf_heading = ''Arrangementet ble ikke funnet'',
             nf_paragraph = ''Beklager, vi kunne ikke finne informasjon om dette arrangementet.'',
             nf_link_to = ''/'',
             nf_link_text = ''Tilbake til forsiden''\<rparr>
      | Some e \<Rightarrow>
          Details
            \<lparr>det_event = e,
             det_heroImage = heroImage e,
             det_venue = first_venue e,
             det_attractions =
               (case Option.bind (event_embedded e) embedded_attractions of
                  None \<Rightarrow> [] | Some as \<Rightarrow> as),
             det_genres = genres e,
             det_formattedDate = formattedDate_of formatDate e,
             det_formattedDateTime = formattedDateTime_of formatDate formatDateTime e\<rparr>)"

subsection \<open>Fixture values\<close>

text \<open>Concrete entities, states and API stubs on which the theorems below are run.\<close>

definition img_small :: image where
  "img_small = \<lparr>img_url = ''small.jpg'', img_ratio = Some ''16_9'', img_width = Some 305\<rparr>"

definition img_portrait :: image where
  "img_portrait = \<lparr>img_url = ''portrait.jpg'', img_ratio = Some ''3_2'', img_width = Some 1024\<rparr>"

definition img_medium :: image where
  "img_medium = \<lparr>img_url = ''medium.jpg'', img_ratio = Some ''16_9'', img_width = Some 640\<rparr>"

definition img_large :: image where
  "img_large = \<lparr>img_url = ''large.jpg'', img_ratio = Some ''16_9'', img_width = Some 2048\<rparr>"

definition venue_oslo :: venue where
  "venue_oslo =
     \<lparr>venue_id = ''V1'', venue_name = ''Spektrum'',
      venue_city = Some \<lparr>nm = Some ''Oslo''\<rparr>, venue_country = Some \<lparr>nm = Some ''Norge''\<rparr>,
      venue_images = None\<rparr>"

definition venue_no_city :: venue where
  "venue_no_city =
     \<lparr>venue_id = ''V2'', venue_name = ''Ukjent arena'',
      venue_city = None, venue_country = Some \<lparr>nm = Some ''Norge''\<rparr>,
      venue_images = Some [img_medium]\<rparr>"

definition attraction_bare :: attraction where
  "attraction_bare =
     \<lparr>attraction_id = ''A1'', attraction_name = ''Artist'', attraction_images = None,
      attraction_classifications = Some [\<lparr>segment = None, genre = None, subGenre = None\<rparr>]\<rparr>"

definition event_bare :: event where
  "event_bare =
     \<lparr>event_id = ''E1'', event_name = ''Konsert'', event_images = None, event_dates = None,
      event_embedded = None, event_classifications = None\<rparr>"

definition event_full :: event where
  "event_full =
     \<lparr>event_id = ''E2'', event_name = ''Festival'',
      event_images = Some [img_small, img_portrait, img_medium, img_large],
      event_dates =
        Some \<lparr>dates_start = Some \<lparr>localDate = Some ''2025-06-01'', localTime = None\<rparr>\<rparr>,
      event_embedded = Some \<lparr>embedded_venues = Some [venue_oslo], embedded_attractions = None\<rparr>,
      event_classifications =
        Some [\<lparr>segment = Some \<lparr>nm = Some ''Music''\<rparr>, genre = Some \<lparr>nm = Some ''Rock''\<rparr>,
               subGenre = Some \<lparr>nm = Some ''Rock''\<rparr>\<rparr>,
              \<lparr>segment = Some \<lparr>nm = Some ''Music''\<rparr>, genre = None,
               subGenre = Some \<lparr>nm = Some []\<rparr>\<rparr>]\<rparr>"

definition browser_start :: browser where
  "browser_start =
     \<lparr>document =
        \<lparr>title = ''Billettlyst | Din billett til opplevelser'', title_data_default = True\<rparr>,
      console = [], api_calls = []\<rparr>"

text \<open>A Category page that has loaded one event, one attraction and one venue, and an
  event detail page that has loaded an event.\<close>

definition category_loaded :: category_state where
  "category_loaded =
     category_initial\<lparr>attractions := [attraction_bare], events := [event_full],
                      venues := [venue_oslo], isLoading := False\<rparr>"

definition details_loaded :: details_state where
  "details_loaded = \<lparr>ed_event = Some event_full, ed_isLoading = False\<rparr>"

text \<open>API stubs: a client whose calls all fail, and clients whose calls succeed.\<close>

definition failing_fetchCategoryContent :: "string \<Rightarrow> filters \<Rightarrow> content settled" where
  "failing_fetchCategoryContent t f = Rejected (Error ''Failed to fetch'')"

definition failing_fetchEventById :: "string \<Rightarrow> event option settled" where
  "failing_fetchEventById i = Rejected (Error ''Failed to fetch'')"

definition empty_fetchCategoryContent :: "string \<Rightarrow> filters \<Rightarrow> content settled" where
  "empty_fetchCategoryContent t f =
     Fulfilled \<lparr>content_attractions = [], content_events = [], content_venues = []\<rparr>"

definition stub_fetchEventById :: "string \<Rightarrow> event option settled" where
  "stub_fetchEventById i = Fulfilled (if i = ''E2'' then Some event_full else None)"

definition stub_fetchSuggest :: "js_string \<Rightarrow> content settled" where
  "stub_fetchSuggest q =
     Fulfilled \<lparr>content_attractions = [], content_events = [event_bare], content_venues = []\<rparr>"

section \<open>Properties\<close>

subsection \<open>Helper lemmas\<close>

lemma find_first_match:
  "P x \<Longrightarrow> \<forall>y\<in>set pre. \<not> P y \<Longrightarrow> List.find P (pre @ x # post) = Some x"
  by (induction pre) auto

lemma find_no_match: "\<forall>y\<in>set xs. \<not> P y \<Longrightarrow> List.find P xs = None"
  by (simp add: find_None_iff)

lemma indexOf_from_mem:
  "v \<in> set xs \<Longrightarrow> \<exists>k<length xs. indexOf_from i xs v = i + int k \<and> xs ! k = v"
proof (induction xs arbitrary: i)
  case Nil
  then show ?case by simp
next
  case (Cons x xs)
  show ?case
  proof (cases "x = v")
    case True
    then show ?thesis by (intro exI[of _ 0]) simp
  next
    case False
    with Cons.prems have "v \<in> set xs" by simp
    from Cons.IH[OF this, of "i + 1"] obtain k where
      k: "k < length xs" "indexOf_from (i + 1) xs v = i + 1 + int k" "xs ! k = v" by blast
    with False show ?thesis by (intro exI[of _ "Suc k"]) simp
  qed
qed

lemma filter_indexed_subset: "set (filter_indexed p xs) \<subseteq> set xs"
  unfolding filter_indexed_def by (auto dest: set_zip_leftD)

lemma first_occurrences_set:
  "set (filter_indexed (\<lambda>value index self. indexOf self value = index) xs) = set xs"
proof
  show "set (filter_indexed (\<lambda>value index self. indexOf self value = index) xs) \<subseteq> set xs"
    by (rule filter_indexed_subset)
next
  show "set xs \<subseteq> set (filter_indexed (\<lambda>value index self. indexOf self value = index) xs)"
  proof
    fix v assume "v \<in> set xs"
    from indexOf_from_mem[OF this, of 0] obtain k where
      k: "k < length xs" "indexOf xs v = int k" "xs ! k = v" by (auto simp: indexOf_def)
    then have "(v, int k) \<in> set (zip xs (map int [0..<length xs]))"
      by (auto simp: set_zip intro!: exI[of _ k])
    with k show "v \<in> set (filter_indexed (\<lambda>value index self. indexOf self value = index) xs)"
      unfolding filter_indexed_def by force
  qed
qed

text \<open>Two kept positions with the same value are both the value's \<^verbatim>\<open>indexOf\<close>.\<close>

lemma first_occurrences_distinct:
  "distinct (filter_indexed (\<lambda>value index self. indexOf self value = index) xs)"
proof -
  let ?zs = "zip xs (map int [0..<length xs])"
  let ?keep = "filter (\<lambda>(v, i). indexOf xs v = i) ?zs"
  have "distinct ?zs" by (rule distinct_zipI2) (simp add: distinct_map)
  then have "distinct ?keep" by simp
  moreover have "inj_on fst (set ?keep)" by (auto simp: inj_on_def)
  ultimately show ?thesis unfolding filter_indexed_def by (simp add: distinct_map)
qed

lemma filter_Boolean_set: "set (filter_Boolean xs) = {g. g \<noteq> [] \<and> Some g \<in> set xs}"
  by (induction xs rule: filter_Boolean.induct) auto

lemma filter_Boolean_elements_append:
  "filter_Boolean_elements (xs @ ys) = filter_Boolean_elements xs @ filter_Boolean_elements ys"
  by (induction xs rule: filter_Boolean_elements.induct) simp_all

lemma count_list_distinct: "distinct xs \<Longrightarrow> x \<in> set xs \<Longrightarrow> count_list xs x = 1"
  by (induction xs) auto

subsection \<open>Fallback defaults of the cards\<close>

text \<open>
  C3. For an event with missing optional fields EventCard shows the defaults: the
  placeholder image URL when the event has no images (the array absent or empty),
  \<^verbatim>\<open>Dato ikke tilgjengelig\<close> when \<^verbatim>\<open>dates.start.localDate\<close> is absent, and
  \<^verbatim>\<open>Ukjent sted\<close> when the city name or the country name of the first embedded venue is
  absent.
\<close>

theorem eventCard_defaults:
  "(event_images (props_event p) = None \<or> event_images (props_event p) = Some [] \<longrightarrow>
      card_img_src (EventCard formatDate p) =
        ''https://via.placeholder.com/400x225?text=Ingen+Bilde'')
   \<and> (start_localDate (props_event p) = None \<longrightarrow>
      card_date (EventCard formatDate p) = ''Dato ikke tilgjengelig'')
   \<and> (name_of (Option.bind (first_venue (props_event p)) venue_city) = None
        \<or> name_of (Option.bind (first_venue (props_event p)) venue_country) = None \<longrightarrow>
      card_location (EventCard formatDate p) = ''Ukjent sted'')"
proof (intro conjI impI)
  assume "event_images (props_event p) = None \<or> event_images (props_event p) = Some []"
  then show "card_img_src (EventCard formatDate p) =
      ''https://via.placeholder.com/400x225?text=Ingen+Bilde''"
    by (auto simp: EventCard_def Let_def eventCard_image_def placeholder_image_def
        placeholder_url_def)
next
  assume "start_localDate (props_event p) = None"
  then show "card_date (EventCard formatDate p) = ''Dato ikke tilgjengelig''"
    by (simp add: EventCard_def Let_def formattedDate_of_def)
next
  assume "name_of (Option.bind (first_venue (props_event p)) venue_city) = None
        \<or> name_of (Option.bind (first_venue (props_event p)) venue_country) = None"
  then show "card_location (EventCard formatDate p) = ''Ukjent sted''"
    by (auto simp: EventCard_def Let_def eventCard_location_def)
qed

theorem eventCard_defaults_witness:
  "EventCard (\<lambda>d. d) \<lparr>props_event = event_bare, isClickable = None, showWishlist = None\<rparr> =
     \<lparr>card_link_to = Some ''/event/E1'',
      card_img_src = ''https://via.placeholder.com/400x225?text=Ingen+Bilde'',
      card_img_alt = ''Konsert'', card_wishlist = None, card_heading = ''Konsert'',
      card_date = ''Dato ikke tilgjengelig'', card_location = ''Ukjent sted''\<rparr>"
proof -
  let ?p = "\<lparr>props_event = event_bare, isClickable = None, showWishlist = None\<rparr>"
  have h1: "event_images (props_event ?p) = None" by (simp add: event_bare_def)
  have h2: "start_localDate (props_event ?p) = None"
    by (simp add: event_bare_def start_localDate_def)
  have h3: "name_of (Option.bind (first_venue (props_event ?p)) venue_city) = None"
    by (simp add: event_bare_def first_venue_def name_of_def)
  from eventCard_defaults[of ?p "\<lambda>d. d"] h1 h2 h3
  have "card_img_src (EventCard (\<lambda>d. d) ?p) =
          ''https://via.placeholder.com/400x225?text=Ingen+Bilde''"
    and "card_date (EventCard (\<lambda>d. d) ?p) = ''Dato ikke tilgjengelig''"
    and "card_location (EventCard (\<lambda>d. d) ?p) = ''Ukjent sted''"
    by blast+
  then show ?thesis by (simp add: EventCard_def Let_def event_bare_def)
qed

text \<open>
  C5. For an attraction with missing optional fields the attraction card of the Category
  page shows \<^verbatim>\<open>Ukjent sjanger\<close> when the genre name of the first classification is
  absent, and the placeholder image URL when the attraction has no images.
\<close>

theorem renderAttraction_defaults:
  "(name_of (Option.bind (first_opt (attraction_classifications a)) genre) = None \<longrightarrow>
      entity_text (renderAttraction a) = ''Ukjent sjanger'')
   \<and> (attraction_images a = None \<or> attraction_images a = Some [] \<longrightarrow>
      entity_img_src (renderAttraction a) =
        ''https://via.placeholder.com/400x225?text=Ingen+Bilde'')"
  by (auto simp: renderAttraction_def Let_def attraction_genre_def attraction_image_def
      placeholder_image_def placeholder_url_def)

theorem renderAttraction_defaults_witness:
  "entity_text (renderAttraction attraction_bare) = ''Ukjent sjanger''
   \<and> entity_img_src (renderAttraction attraction_bare) =
       ''https://via.placeholder.com/400x225?text=Ingen+Bilde''"
proof -
  have h1: "name_of (Option.bind (first_opt (attraction_classifications attraction_bare)) genre)
            = None"
    by (simp add: attraction_bare_def name_of_def)
  have h2: "attraction_images attraction_bare = None" by (simp add: attraction_bare_def)
  from renderAttraction_defaults[of attraction_bare] h1 h2 show ?thesis by blast
qed

subsection \<open>The wishlist items\<close>

text \<open>
  C7. At each of the three places where a WishlistButton is built, the item is exactly
  \<^verbatim>\<open>{ id, type, name, image }\<close>: the type is \<^verbatim>\<open>event\<close>, \<^verbatim>\<open>attraction\<close> or \<^verbatim>\<open>venue\<close>
  according to the entity, id and name are the entity's, and the image is the URL the card
  shows, which is the URL of the image selected for the card. (EventCard builds the button
  when \<^verbatim>\<open>showWishlist\<close> is set; a venue has a button when it has a card.)
\<close>

theorem wishlist_item_shape:
  "(showWishlist p = Some True \<longrightarrow>
      card_wishlist (EventCard formatDate p) =
        Some \<lparr>item_id = event_id (props_event p), item_type = ''event'',
              item_name = event_name (props_event p),
              item_image = card_img_src (EventCard formatDate p)\<rparr>)
   \<and> entity_wishlist (renderAttraction a) =
        \<lparr>item_id = attraction_id a, item_type = ''attraction'', item_name = attraction_name a,
         item_image = entity_img_src (renderAttraction a)\<rparr>
   \<and> (renderVenue v = Some c \<longrightarrow>
        entity_wishlist c =
          \<lparr>item_id = venue_id v, item_type = ''venue'', item_name = venue_name v,
           item_image = entity_img_src c\<rparr>)
   \<and> card_img_src (EventCard formatDate p) = img_url (eventCard_image (props_event p))
   \<and> entity_img_src (renderAttraction a) = img_url (attraction_image a)
   \<and> (renderVenue v = Some c \<longrightarrow> entity_img_src c = img_url (venue_image v))"
  by (auto simp: EventCard_def renderAttraction_def renderVenue_def Let_def
      split: option.splits)

theorem wishlist_item_shape_witness:
  "card_wishlist (EventCard (\<lambda>d. d)
      \<lparr>props_event = event_full, isClickable = Some False, showWishlist = Some True\<rparr>) =
     Some \<lparr>item_id = ''E2'', item_type = ''event'', item_name = ''Festival'',
           item_image = ''medium.jpg''\<rparr>
   \<and> entity_wishlist (renderAttraction attraction_bare) =
       \<lparr>item_id = ''A1'', item_type = ''attraction'', item_name = ''Artist'',
        item_image = ''https://via.placeholder.com/400x225?text=Ingen+Bilde''\<rparr>
   \<and> map_option entity_wishlist (renderVenue venue_oslo) =
       Some \<lparr>item_id = ''V1'', item_type = ''venue'', item_name = ''Spektrum'',
             item_image = ''https://via.placeholder.com/400x225?text=Ingen+Bilde''\<rparr>"
proof -
  let ?p = "\<lparr>props_event = event_full, isClickable = Some False, showWishlist = Some True\<rparr>"
  obtain c where c: "renderVenue venue_oslo = Some c"
    by (simp add: renderVenue_def venue_oslo_def Let_def)
  have src: "card_img_src (EventCard (\<lambda>d. d) ?p) = ''medium.jpg''"
    by (simp add: EventCard_def Let_def eventCard_image_def event_full_def img_small_def
        img_portrait_def img_medium_def img_large_def ratio_is_def wider_than_def)
  have asrc: "entity_img_src (renderAttraction attraction_bare) =
      ''https://via.placeholder.com/400x225?text=Ingen+Bilde''"
    by (simp add: renderAttraction_def Let_def attraction_image_def attraction_bare_def
        placeholder_image_def placeholder_url_def)
  have vsrc: "entity_img_src c = ''https://via.placeholder.com/400x225?text=Ingen+Bilde''"
    using c by (auto simp: renderVenue_def Let_def venue_image_def venue_oslo_def
        placeholder_image_def placeholder_url_def)
  from wishlist_item_shape[of ?p "\<lambda>d. d" attraction_bare venue_oslo c] c src asrc vsrc
  show ?thesis by (simp add: event_full_def attraction_bare_def venue_oslo_def)
qed

subsection \<open>The genre list of the event detail page\<close>

text \<open>
  C6. The genre list of the event detail page (the segment, genre and sub-genre names of
  all classifications, flattened, absent and empty names dropped) has no duplicates: it
  holds exactly the names that occur, each of them once.
\<close>

theorem genres_no_duplicates:
  "distinct (genres e)
   \<and> set (genres e) = {g. g \<noteq> [] \<and> Some g \<in> set (classification_names e)}
   \<and> (\<forall>g. g \<noteq> [] \<and> Some g \<in> set (classification_names e) \<longrightarrow> count_list (genres e) g = 1)"
proof -
  have d: "distinct (genres e)" unfolding genres_def by (rule first_occurrences_distinct)
  have s: "set (genres e) = {g. g \<noteq> [] \<and> Some g \<in> set (classification_names e)}"
    unfolding genres_def by (simp add: first_occurrences_set filter_Boolean_set)
  from d s show ?thesis by (simp add: count_list_distinct)
qed

theorem genres_no_duplicates_witness:
  "genres event_full = [''Music'', ''Rock'']
   \<and> count_list (genres event_full) ''Music'' = 1 \<and> count_list (genres event_full) ''Rock'' = 1"
proof -
  have n: "classification_names event_full =
      [Some ''Music'', Some ''Rock'', Some ''Rock'', Some ''Music'', None, Some []]"
    by (simp add: classification_names_def classifications_def event_full_def name_of_def)
  have g: "genres event_full = [''Music'', ''Rock'']"
    by (simp add: genres_def n filter_indexed_def indexOf_def upt_rec)
  from genres_no_duplicates[of event_full] n
  have "count_list (genres event_full) ''Music'' = 1" "count_list (genres event_full) ''Rock'' = 1"
    by simp_all
  with g show ?thesis by simp
qed

subsection \<open>Image selection\<close>

text \<open>
  C9. The image shown for an event follows a fixed order of preference. EventCard takes
  the first image with ratio \<^verbatim>\<open>16_9\<close> and width above 500, else the first image, else the
  placeholder. The hero of the event detail page takes the first image with ratio
  \<^verbatim>\<open>16_9\<close> and width above 800, else the first image with width above 800, else the
  first image; without images there is no hero image. Both are functions of the event
  alone.
\<close>

theorem image_preference_order:
  "(event_images e = Some (pre @ img # post)
      \<and> ratio_is ''16_9'' img \<and> wider_than 500 img
      \<and> (\<forall>x\<in>set pre. \<not> (ratio_is ''16_9'' x \<and> wider_than 500 x)) \<longrightarrow>
      eventCard_image e = img)
   \<and> (event_images e = Some (img # rest)
      \<and> (\<forall>x\<in>set (img # rest). \<not> (ratio_is ''16_9'' x \<and> wider_than 500 x)) \<longrightarrow>
      eventCard_image e = img)
   \<and> (event_images e = None \<or> event_images e = Some [] \<longrightarrow>
      eventCard_image e = placeholder_image)
   \<and> (event_images e = Some (pre @ img # post)
      \<and> ratio_is ''16_9'' img \<and> wider_than 800 img
      \<and> (\<forall>x\<in>set pre. \<not> (ratio_is ''16_9'' x \<and> wider_than 800 x)) \<longrightarrow>
      heroImage e = Some img)
   \<and> (event_images e = Some (pre @ img # post)
      \<and> (\<forall>x\<in>set (pre @ img # post). \<not> (ratio_is ''16_9'' x \<and> wider_than 800 x))
      \<and> wider_than 800 img \<and> (\<forall>x\<in>set pre. \<not> wider_than 800 x) \<longrightarrow>
      heroImage e = Some img)
   \<and> (event_images e = Some (img # rest)
      \<and> (\<forall>x\<in>set (img # rest). \<not> wider_than 800 x) \<longrightarrow>
      heroImage e = Some img)
   \<and> (event_images e = None \<or> event_images e = Some [] \<longrightarrow> heroImage e = None)"
proof (intro conjI impI; (elim conjE)?)
  assume "event_images e = Some (pre @ img # post)" "ratio_is ''16_9'' img" "wider_than 500 img"
    "\<forall>x\<in>set pre. \<not> (ratio_is ''16_9'' x \<and> wider_than 500 x)"
  then show "eventCard_image e = img"
    by (simp add: eventCard_image_def
        find_first_match[of "\<lambda>x. ratio_is ''16_9'' x \<and> wider_than 500 x"])
next
  assume a: "event_images e = Some (img # rest)"
    "\<forall>x\<in>set (img # rest). \<not> (ratio_is ''16_9'' x \<and> wider_than 500 x)"
  from a(2) have "List.find (\<lambda>x. ratio_is ''16_9'' x \<and> wider_than 500 x) (img # rest) = None"
    by (rule find_no_match)
  with a(1) show "eventCard_image e = img" by (simp add: eventCard_image_def)
next
  assume "event_images e = None \<or> event_images e = Some []"
  then show "eventCard_image e = placeholder_image" by (auto simp: eventCard_image_def)
next
  assume "event_images e = Some (pre @ img # post)" "ratio_is ''16_9'' img" "wider_than 800 img"
    "\<forall>x\<in>set pre. \<not> (ratio_is ''16_9'' x \<and> wider_than 800 x)"
  then show "heroImage e = Some img"
    by (simp add: heroImage_def
        find_first_match[of "\<lambda>x. ratio_is ''16_9'' x \<and> wider_than 800 x"])
next
  assume a: "event_images e = Some (pre @ img # post)"
    "\<forall>x\<in>set (pre @ img # post). \<not> (ratio_is ''16_9'' x \<and> wider_than 800 x)"
    "wider_than 800 img" "\<forall>x\<in>set pre. \<not> wider_than 800 x"
  from a(2) have
    "List.find (\<lambda>x. ratio_is ''16_9'' x \<and> wider_than 800 x) (pre @ img # post) = None"
    by (rule find_no_match)
  moreover from a(3,4) have "List.find (wider_than 800) (pre @ img # post) = Some img"
    by (rule find_first_match)
  ultimately show "heroImage e = Some img" using a(1) by (simp add: heroImage_def)
next
  assume a: "event_images e = Some (img # rest)" "\<forall>x\<in>set (img # rest). \<not> wider_than 800 x"
  from a(2) have "List.find (wider_than 800) (img # rest) = None" by (rule find_no_match)
  moreover from a(2) have
    "List.find (\<lambda>x. ratio_is ''16_9'' x \<and> wider_than 800 x) (img # rest) = None"
    by (intro find_no_match) simp
  ultimately show "heroImage e = Some img" using a(1) by (simp add: heroImage_def)
next
  assume "event_images e = None \<or> event_images e = Some []"
  then show "heroImage e = None" by (auto simp: heroImage_def)
qed

theorem image_preference_order_witness:
  "eventCard_image event_full = img_medium \<and> heroImage event_full = Some img_large
   \<and> eventCard_image event_bare = placeholder_image \<and> heroImage event_bare = None"
proof -
  have i: "event_images event_full = Some ([img_small, img_portrait] @ img_medium # [img_large])"
    by (simp add: event_full_def)
  have j: "event_images event_full = Some ([img_small, img_portrait, img_medium] @ img_large # [])"
    by (simp add: event_full_def)
  have m: "ratio_is ''16_9'' img_medium \<and> wider_than 500 img_medium
      \<and> (\<forall>x\<in>set [img_small, img_portrait]. \<not> (ratio_is ''16_9'' x \<and> wider_than 500 x))"
    by (simp add: ratio_is_def wider_than_def img_small_def img_portrait_def img_medium_def)
  have l: "ratio_is ''16_9'' img_large \<and> wider_than 800 img_large
      \<and> (\<forall>x\<in>set [img_small, img_portrait, img_medium].
            \<not> (ratio_is ''16_9'' x \<and> wider_than 800 x))"
    by (simp add: ratio_is_def wider_than_def img_small_def img_portrait_def img_medium_def
        img_large_def)
  have b: "event_images event_bare = None" by (simp add: event_bare_def)
  have 1: "eventCard_image event_full = img_medium"
    using image_preference_order[of event_full "[img_small, img_portrait]" img_medium
        "[img_large]"] i m by blast
  have 2: "heroImage event_full = Some img_large"
    using image_preference_order[of event_full "[img_small, img_portrait, img_medium]" img_large
        "[]"] j l by blast
  have 3: "eventCard_image event_bare = placeholder_image \<and> heroImage event_bare = None"
    using image_preference_order[of event_bare] b by blast
  from 1 2 3 show ?thesis by simp
qed

subsection \<open>The search form of the Category page\<close>

text \<open>
  C2. Submitting the search form with a query whose trimmed text is empty performs no
  fetch and leaves the component state unchanged: the handler only prevents the default
  action of the form event.
\<close>

theorem empty_search_no_fetch:
  "trim (searchQuery st) = [] \<Longrightarrow>
     handleSearch fetchSuggest e (st, w) = (e\<lparr>defaultPrevented := True\<rparr>, st, w)"
  by (simp add: handleSearch_def)

theorem empty_search_no_fetch_witness:
  "trim [0x0020, 0x3000, 0x0009] = []
   \<and> handleSearch stub_fetchSuggest \<lparr>defaultPrevented = False\<rparr>
       (category_loaded\<lparr>searchQuery := [0x0020, 0x3000, 0x0009]\<rparr>, browser_start) =
     (\<lparr>defaultPrevented = True\<rparr>,
      category_loaded\<lparr>searchQuery := [0x0020, 0x3000, 0x0009]\<rparr>, browser_start)"
proof -
  have t: "trim [0x0020, 0x3000, 0x0009] = []"
    by (simp add: trim_def is_white_space_def)
  then have "trim (searchQuery (category_loaded\<lparr>searchQuery := [0x0020, 0x3000, 0x0009]\<rparr>)) = []"
    by simp
  from empty_search_no_fetch[OF this, of stub_fetchSuggest "\<lparr>defaultPrevented = False\<rparr>"
      browser_start] t
  show ?thesis by simp
qed

subsection \<open>The venue cards of the Category page\<close>

text \<open>
  C4, as stated: every venue with missing optional fields still gets a card with
  fallback values. It fails for a venue without a city: \<^verbatim>\<open>renderVenue\<close> returns
  \<^verbatim>\<open>null\<close> for it and the venue grid of the page is empty.
\<close>

theorem venue_without_city_omitted:
  "renderVenue venue_no_city = None
   \<and> Category_body (\<lambda>d. d) (category_loaded\<lparr>venues := [venue_no_city]\<rparr>) =
       Results
         \<lparr>events_section =
            Grid [EventCard (\<lambda>d. d)
                    \<lparr>props_event = event_full, isClickable = Some False,
                     showWishlist = Some True\<rparr>],
          attractions_section = Grid [renderAttraction attraction_bare],
          venues_section = Grid []\<rparr>"
  by (simp add: renderVenue_def venue_no_city_def Category_body_def category_loaded_def
      category_initial_def)

text \<open>
  C4, amended. A venue that has a city and a country but no images (the array absent or
  empty) gets a card with the placeholder image URL, and its location line is the city
  name, a comma and the country name, an absent name showing as nothing. A venue whose
  city or country is missing gets no card: \<^verbatim>\<open>renderVenue\<close> returns \<^verbatim>\<open>null\<close> and the
  grid is the same as without that venue.
\<close>

theorem renderVenue_fallbacks:
  "(venue_city v = Some city \<and> venue_country v = Some country
      \<and> (venue_images v = None \<or> venue_images v = Some []) \<longrightarrow>
      (\<exists>c. renderVenue v = Some c
          \<and> entity_img_src c = ''https://via.placeholder.com/400x225?text=Ingen+Bilde''
          \<and> entity_text c = jsx_text (nm city) @ '', '' @ jsx_text (nm country)))
   \<and> (venue_city v = None \<or> venue_country v = None \<longrightarrow>
      renderVenue v = None
      \<and> filter_Boolean_elements (map renderVenue (before @ v # after)) =
          filter_Boolean_elements (map renderVenue (before @ after)))"
  by (auto simp: renderVenue_def Let_def venue_image_def placeholder_image_def
      placeholder_url_def filter_Boolean_elements_append split: option.splits)

theorem renderVenue_fallbacks_witness:
  "map_option entity_img_src (renderVenue venue_oslo) =
     Some ''https://via.placeholder.com/400x225?text=Ingen+Bilde''
   \<and> map_option entity_text (renderVenue venue_oslo) = Some ''Oslo, Norge''
   \<and> renderVenue venue_no_city = None
   \<and> filter_Boolean_elements (map renderVenue ([venue_oslo] @ venue_no_city # [])) =
       filter_Boolean_elements (map renderVenue ([venue_oslo] @ []))"
proof -
  have h1: "venue_city venue_oslo = Some \<lparr>nm = Some ''Oslo''\<rparr>
      \<and> venue_country venue_oslo = Some \<lparr>nm = Some ''Norge''\<rparr>
      \<and> (venue_images venue_oslo = None \<or> venue_images venue_oslo = Some [])"
    by (simp add: venue_oslo_def)
  have h2: "venue_city venue_no_city = None \<or> venue_country venue_no_city = None"
    by (simp add: venue_no_city_def)
  from renderVenue_fallbacks[of venue_oslo "\<lparr>nm = Some ''Oslo''\<rparr>" "\<lparr>nm = Some ''Norge''\<rparr>"] h1
  obtain c where "renderVenue venue_oslo = Some c"
    "entity_img_src c = ''https://via.placeholder.com/400x225?text=Ingen+Bilde''"
    "entity_text c = ''Oslo, Norge''"
    by auto
  moreover from renderVenue_fallbacks[of venue_no_city _ _ "[venue_oslo]" "[]"] h2
  have "renderVenue venue_no_city = None
      \<and> filter_Boolean_elements (map renderVenue ([venue_oslo] @ venue_no_city # [])) =
          filter_Boolean_elements (map renderVenue ([venue_oslo] @ []))"
    by blast
  ultimately show ?thesis by simp
qed

subsection \<open>Failed fetches\<close>

text \<open>
  C1, as stated: after a failed fetch the state holds an empty result set. It fails on a
  page that already shows results: the Category page keeps its event list, and the event
  detail page keeps its event.
\<close>

theorem fetch_failure_not_empty:
  "failing_fetchCategoryContent ''music'' (filters category_loaded) = Rejected (Error ''Failed to fetch'')
   \<and> events (fst (loadCategoryContent failing_fetchCategoryContent (Some ''music'')
                    (categoryName (Some ''music'')) (category_loaded, browser_start))) =
       [event_full]
   \<and> events (fst (loadCategoryContent failing_fetchCategoryContent (Some ''music'')
                    (categoryName (Some ''music'')) (category_loaded, browser_start))) \<noteq> []
   \<and> failing_fetchEventById ''E9'' = Rejected (Error ''Failed to fetch'')
   \<and> ed_event (fst (loadEvent failing_fetchEventById (Some ''E9'')
                    (details_loaded, browser_start))) = Some event_full
   \<and> ed_event (fst (loadEvent failing_fetchEventById (Some ''E9'')
                    (details_loaded, browser_start))) \<noteq> None"
  by (simp add: loadCategoryContent_def loadCategoryContent_settle_def loadEvent_def
      loadEvent_settle_def failing_fetchCategoryContent_def failing_fetchEventById_def
      category_loaded_def details_loaded_def)

text \<open>
  C1, amended. When the fetch started by \<^verbatim>\<open>loadCategoryContent\<close> or \<^verbatim>\<open>loadEvent\<close>
  fails, the error is caught and logged with \<^verbatim>\<open>console.error\<close>, the loading flag is
  cleared, and the rest of the state (the events, attractions and venues lists; the event)
  is what it was before the fetch: empty lists and no event on a freshly mounted page,
  the earlier results otherwise.
\<close>

theorem fetch_failure_keeps_results:
  "(truthy route_type
      \<and> fetchCategoryContent (jsx_text route_type) (filters st) = Rejected err \<longrightarrow>
      loadCategoryContent fetchCategoryContent route_type name (st, w) =
        (st\<lparr>isLoading := False\<rparr>,
         console_error ''Error loading category content:'' err
           (call_api (FetchCategoryContent (jsx_text route_type) (filters st)) w)))
   \<and> (truthy route_id \<and> fetchEventById (jsx_text route_id) = Rejected err' \<longrightarrow>
      loadEvent fetchEventById route_id (dst, w') =
        (dst\<lparr>ed_isLoading := False\<rparr>,
         console_error ''Error loading event details:'' err'
           (call_api (FetchEventById (jsx_text route_id)) w')))"
  by (simp add: loadCategoryContent_def loadCategoryContent_settle_def loadEvent_def
      loadEvent_settle_def)

theorem fetch_failure_keeps_results_witness:
  "loadCategoryContent failing_fetchCategoryContent (Some ''music'')
       (categoryName (Some ''music'')) (category_initial, browser_start) =
     (category_initial\<lparr>isLoading := False\<rparr>,
      browser_start
        \<lparr>console := [(''Error loading category content:'', Error ''Failed to fetch'')],
         api_calls := [FetchCategoryContent ''music'' (filters category_initial)]\<rparr>)
   \<and> attractions (category_initial\<lparr>isLoading := False\<rparr>) = []
   \<and> events (category_initial\<lparr>isLoading := False\<rparr>) = []
   \<and> venues (category_initial\<lparr>isLoading := False\<rparr>) = []
   \<and> loadEvent failing_fetchEventById (Some ''E9'') (details_loaded, browser_start) =
     (\<lparr>ed_event = Some event_full, ed_isLoading = False\<rparr>,
      browser_start
        \<lparr>console := [(''Error loading event details:'', Error ''Failed to fetch'')],
         api_calls := [FetchEventById ''E9'']\<rparr>)"
proof -
  have h1: "truthy (Some ''music'')
      \<and> failing_fetchCategoryContent (jsx_text (Some ''music'')) (filters category_initial) =
          Rejected (Error ''Failed to fetch'')"
    by (simp add: failing_fetchCategoryContent_def)
  have h2: "truthy (Some ''E9'')
      \<and> failing_fetchEventById (jsx_text (Some ''E9'')) = Rejected (Error ''Failed to fetch'')"
    by (simp add: failing_fetchEventById_def)
  from fetch_failure_keeps_results[of "Some ''music''" failing_fetchCategoryContent
      category_initial "Error ''Failed to fetch''" "categoryName (Some ''music'')"
      browser_start "Some ''E9''"
      failing_fetchEventById "Error ''Failed to fetch''" details_loaded browser_start] h1 h2
  show ?thesis
    by (simp add: console_error_def call_api_def browser_start_def details_loaded_def
        category_initial_def)
qed

subsection \<open>The document title\<close>

text \<open>
  C8. After a successful fetch the Category page sets the document title to the category
  name followed by \<^verbatim>\<open> | Billettlyst\<close>; the event detail page sets it to the event name
  followed by \<^verbatim>\<open> | Billettlyst\<close> when the event is found and to
  \<^verbatim>\<open>Arrangement | Billettlyst\<close> when it is not. Nothing of the document but its title
  is changed by the loaders or by the cleanup of the effect.
\<close>

theorem document_title_set:
  "(truthy route_type
      \<and> fetchCategoryContent (jsx_text route_type) (filters st) = Fulfilled c \<longrightarrow>
      document (snd (loadCategoryContent fetchCategoryContent route_type name (st, w))) =
        (document w)\<lparr>title := name @ '' | Billettlyst''\<rparr>)
   \<and> (truthy route_id \<and> fetchEventById (jsx_text route_id) = Fulfilled (Some ev) \<longrightarrow>
      document (snd (loadEvent fetchEventById route_id (dst, w))) =
        (document w)\<lparr>title := event_name ev @ '' | Billettlyst''\<rparr>)
   \<and> (truthy route_id \<and> fetchEventById (jsx_text route_id) = Fulfilled None \<longrightarrow>
      document (snd (loadEvent fetchEventById route_id (dst, w))) =
        (document w)\<lparr>title := ''Arrangement | Billettlyst''\<rparr>)
   \<and> title_data_default
        (document (snd (loadCategoryContent fetchCategoryContent route_type name (st, w))))
       = title_data_default (document w)
   \<and> title_data_default (document (snd (loadEvent fetchEventById route_id (dst, w))))
       = title_data_default (document w)
   \<and> title_data_default (document (reset_title w)) = title_data_default (document w)"
  by (auto simp: loadCategoryContent_def loadCategoryContent_settle_def loadEvent_def
      loadEvent_settle_def set_title_def call_api_def console_error_def reset_title_def
      split: settled.splits option.splits)

theorem document_title_set_witness:
  "title (document (snd (loadCategoryContent empty_fetchCategoryContent (Some ''sports'')
                           (categoryName (Some ''sports''))
                           (category_initial, browser_start)))) = ''Sport | Billettlyst''
   \<and> title (document (snd (loadEvent stub_fetchEventById (Some ''E2'')
                              (details_initial, browser_start)))) = ''Festival | Billettlyst''
   \<and> title (document (snd (loadEvent stub_fetchEventById (Some ''E9'')
                              (details_initial, browser_start)))) = ''Arrangement | Billettlyst''
   \<and> title_data_default (document (snd (loadEvent stub_fetchEventById (Some ''E9'')
                              (details_initial, browser_start))))"
proof -
  let ?c = "\<lparr>content_attractions = [], content_events = [], content_venues = []\<rparr>"
  have h1: "truthy (Some ''sports'')
      \<and> empty_fetchCategoryContent (jsx_text (Some ''sports'')) (filters category_initial) =
          Fulfilled ?c"
    by (simp add: empty_fetchCategoryContent_def)
  have h2: "truthy (Some ''E2'')
      \<and> stub_fetchEventById (jsx_text (Some ''E2'')) = Fulfilled (Some event_full)"
    by (simp add: stub_fetchEventById_def)
  have h3: "truthy (Some ''E9'') \<and> stub_fetchEventById (jsx_text (Some ''E9'')) = Fulfilled None"
    by (simp add: stub_fetchEventById_def)
  have n: "categoryName (Some ''sports'') = ''Sport''"
    by (simp add: categoryName_def categoryTranslations_def)
  have 1: "document (snd (loadCategoryContent empty_fetchCategoryContent (Some ''sports'')
                           (categoryName (Some ''sports''))
                           (category_initial, browser_start))) =
           (document browser_start)\<lparr>title := ''Sport | Billettlyst''\<rparr>"
    using document_title_set[of "Some ''sports''" empty_fetchCategoryContent category_initial ?c
        "categoryName (Some ''sports'')" browser_start] h1 n by simp
  have 2: "document (snd (loadEvent stub_fetchEventById (Some ''E2'')
                              (details_initial, browser_start))) =
           (document browser_start)\<lparr>title := ''Festival | Billettlyst''\<rparr>"
    using document_title_set[of _ _ _ _ _ browser_start "Some ''E2''" stub_fetchEventById
        event_full details_initial] h2 by (simp add: event_full_def)
  have 3: "document (snd (loadEvent stub_fetchEventById (Some ''E9'')
                              (details_initial, browser_start))) =
           (document browser_start)\<lparr>title := ''Arrangement | Billettlyst''\<rparr>"
    using document_title_set[of _ _ _ _ _ browser_start "Some ''E9''" stub_fetchEventById
        _ details_initial] h3 by simp
  from 1 2 3 show ?thesis by (simp add: browser_start_def)
qed

subsection \<open>The not-found view\<close>

text \<open>
  C10. When \<^verbatim>\<open>fetchEventById\<close> resolves to no event for the route id, the loading flag
  is cleared and the event detail page shows the not-found view, with the heading
  \<^verbatim>\<open>Arrangementet ble ikke funnet\<close> and a link to the front page, and neither the detail
  view nor the skeleton.
\<close>

theorem not_found_view:
  "truthy route_id \<Longrightarrow> fetchEventById (jsx_text route_id) = Fulfilled None \<Longrightarrow>
   st' = fst (loadEvent fetchEventById route_id (st, w)) \<Longrightarrow>
     \<not> ed_isLoading st'
     \<and> EventDetails_view formatDate formatDateTime st' =
         Not_found
           \<lparr>nf_heading = ''Arrangementet ble ikke funnet'',
            nf_paragraph = ''Beklager, vi kunne ikke finne informasjon om dette arrangementet.'',
            nf_link_to = ''/'', nf_link_text = ''Tilbake til forsiden''\<rparr>
     \<and> (\<forall>d. EventDetails_view formatDate formatDateTime st' \<noteq> Details d)
     \<and> EventDetails_view formatDate formatDateTime st' \<noteq> Loading_skeleton"
  by (simp add: loadEvent_def loadEvent_settle_def EventDetails_view_def)

theorem not_found_view_witness:
  "EventDetails_view (\<lambda>d. d) (\<lambda>d t. d @ '' '' @ t)
     (fst (loadEvent stub_fetchEventById (Some ''E9'') (details_loaded, browser_start))) =
     Not_found
       \<lparr>nf_heading = ''Arrangementet ble ikke funnet'',
        nf_paragraph = ''Beklager, vi kunne ikke finne informasjon om dette arrangementet.'',
        nf_link_to = ''/'', nf_link_text = ''Tilbake til forsiden''\<rparr>
   \<and> \<not> ed_isLoading (fst (loadEvent stub_fetchEventById (Some ''E9'')
                              (details_loaded, browser_start)))"
proof -
  have h1: "truthy (Some ''E9'')" by simp
  have h2: "stub_fetchEventById (jsx_text (Some ''E9'')) = Fulfilled None"
    by (simp add: stub_fetchEventById_def)
  from not_found_view[where route_id = "Some ''E9''" and fetchEventById = stub_fetchEventById
      and st = details_loaded and w = browser_start and formatDate = "\<lambda>d. d"
      and formatDateTime = "\<lambda>d t. d @ '' '' @ t", OF h1 h2 refl]
  show ?thesis by simp
qed

end
